theory Spec2Isabelle
  imports Main "HOL-Library.Word"
begin

unbundle bit_operations_syntax

section \<open>Data model\<close>

text \<open>
  A \<^verbatim>\<open>Buffer\<close> and an \<^verbatim>\<open>ArrayBuffer\<close> are both sequences of octets. JavaScript objects
  live in a store and are passed by reference, so that a write to a key object by any
  operation would be visible in the store the operation returns.
\<close>

type_synonym bytes = "8 word list"
type_synonym ref = nat

text \<open>
  \<^verbatim>\<open>GcpKmsRsaPssPrivateKey\<close> (class of that name): the constructor stores
  \<^verbatim>\<open>kmsKeyVersionPath\<close> and hands the other two arguments to the base class.

  Modelled from the spec: the base class \<^verbatim>\<open>RsaPssPrivateKey\<close> (module \<^verbatim>\<open>../PrivateKey\<close>) and the
  type \<^verbatim>\<open>HashingAlgorithm\<close> (module \<^verbatim>\<open>../algorithms\<close>) are missing; the spec gives a handle the
  attributes hash algorithm and provider back-reference, kept here as the two further
  fields. Every other object only shows the name of its constructor.
\<close>

datatype js_object =
    GcpKmsRsaPssPrivateKey (kmsKeyVersionPath: string) (hashingAlgorithm: string) (provider: ref)
  | OtherObject string

fun instanceof_GcpKmsRsaPssPrivateKey :: "js_object \<Rightarrow> bool" where
  "instanceof_GcpKmsRsaPssPrivateKey (GcpKmsRsaPssPrivateKey p h r) = True"
| "instanceof_GcpKmsRsaPssPrivateKey (OtherObject n) = False"

fun constructor_name :: "js_object \<Rightarrow> string" where
  "constructor_name (GcpKmsRsaPssPrivateKey p h r) = ''GcpKmsRsaPssPrivateKey''"
| "constructor_name (OtherObject n) = n"

text \<open>
  Errors. A rejection of the remote client is an error object that may carry
  \<^verbatim>\<open>statusDetails\<close>, a list of details. A detail may carry a list of \<^verbatim>\<open>violations\<close>, each with
  a \<^verbatim>\<open>type\<close>; a detail of another kind (a reason and a domain, say) carries none. A
  \<^verbatim>\<open>TypeError\<close> is what the engine raises when the code reads a property of an absent
  value; its message is the engine's and is left out.

  Modelled from the spec: the class \<^verbatim>\<open>KmsError\<close> (module \<^verbatim>\<open>../KmsError\<close>) is missing; the spec
  describes it as the single error kind, carrying a human-readable message and, where
  applicable, the wrapped underlying cause.
\<close>

datatype Violation = Violation (violation_type: string)

datatype StatusDetail = StatusDetail (violations: "Violation list option")

datatype js_error =
    KmsError (message: string) (cause: "js_error option")
  | RemoteError (message: string) "StatusDetail list option"
  | TypeError

fun statusDetails :: "js_error \<Rightarrow> StatusDetail list option" where
  "statusDetails (KmsError m c) = None"
| "statusDetails (RemoteError m d) = d"
| "statusDetails TypeError = None"

fun isKmsError :: "js_error \<Rightarrow> bool" where
  "isKmsError (KmsError m c) = True"
| "isKmsError (RemoteError m d) = False"
| "isKmsError TypeError = False"

record CallOptions =
  maxRetries :: nat
  timeout :: nat

text \<open>
  The request of \<^verbatim>\<open>asymmetricSign\<close>: \<^verbatim>\<open>{ data, dataCrc32c: { value }, name }\<close>, and the fields of
  its response that \<^verbatim>\<open>kmsSign\<close> reads, each field under the name of its object.
  \<^verbatim>\<open>response_signatureCrc32c\<close> is the wrapper \<^verbatim>\<open>response.signatureCrc32c\<close>, which may be absent,
  with the number that \<^verbatim>\<open>Number(...)\<close> makes of its \<^verbatim>\<open>value\<close>; the number is compared with an
  unsigned 32-bit value, so it is kept as an integer.
  \<^verbatim>\<open>response_verifiedDataCrc32c\<close> is the truthiness of the field.
\<close>

record AsymmetricSignRequest =
  request_data :: bytes
  request_dataCrc32c :: "32 word"
  request_name :: string

record AsymmetricSignResponse =
  response_name :: string
  response_verifiedDataCrc32c :: bool
  response_signature :: bytes
  response_signatureCrc32c :: "int option"

text \<open>The response of \<^verbatim>\<open>getPublicKey\<close>; its \<^verbatim>\<open>pem\<close> may be absent.\<close>

record PublicKey =
  response_pem :: "string option"

text \<open>
  The remote service is outside the program: the client is a pair of transitions on a
  state of the service, each answering a request with a rejection or a response.
\<close>

record 'st KeyManagementServiceClient =
  asymmetricSign :: "AsymmetricSignRequest \<Rightarrow> CallOptions \<Rightarrow> 'st \<Rightarrow> (js_error + AsymmetricSignResponse) \<times> 'st"
  getPublicKey :: "string \<Rightarrow> CallOptions \<Rightarrow> 'st \<Rightarrow> (js_error + PublicKey) \<times> 'st"

text \<open>What the program does to the outside, in order: the remote calls and the pauses.\<close>

datatype event =
    AsymmetricSignCall AsymmetricSignRequest CallOptions
  | GetPublicKeyCall string CallOptions
  | Sleep nat

record 'st world =
  kms :: 'st
  objects :: "ref \<Rightarrow> js_object"
  events :: "event list"

type_synonym ('a, 'st) promise = "'st world \<Rightarrow> (js_error + 'a) \<times> 'st world"

record 'st GcpKmsRsaPssProvider =
  kmsClient :: "'st KeyManagementServiceClient"
  hashAlgorithms :: "string list"

text \<open>
  The salt length of \<^verbatim>\<open>RsaPssParams\<close> is an unsigned number of octets; in a message it is
  printed in decimal digits, as JavaScript prints the integers below \<open>10\<^sup>2\<^sup>1\<close>.
\<close>

record RsaPssParams =
  saltLength :: nat

datatype KeyFormat = jwk | pkcs8 | raw | spki

section \<open>Collaborators\<close>

text \<open>The two remote operations as seen by the program: the call is recorded, the service moves on.\<close>

definition call_asymmetricSign ::
  "'st KeyManagementServiceClient \<Rightarrow> AsymmetricSignRequest \<Rightarrow> CallOptions \<Rightarrow> (AsymmetricSignResponse, 'st) promise" where
  "call_asymmetricSign client request options w =
     (case asymmetricSign client request options (kms w) of
        (r, s) \<Rightarrow> (r, w\<lparr>kms := s, events := events w @ [AsymmetricSignCall request options]\<rparr>))"

definition call_getPublicKey ::
  "'st KeyManagementServiceClient \<Rightarrow> string \<Rightarrow> CallOptions \<Rightarrow> (PublicKey, 'st) promise" where
  "call_getPublicKey client keyName options w =
     (case getPublicKey client keyName options (kms w) of
        (r, s) \<Rightarrow> (r, w\<lparr>kms := s, events := events w @ [GetPublicKeyCall keyName options]\<rparr>))"

text \<open>
  Modelled from the spec: \<^verbatim>\<open>sleep\<close> (module \<^verbatim>\<open>../utils/timing\<close>) is missing; a process-wide delay,
  which only shows as a pause of the given number of milliseconds.
\<close>

definition sleep :: "nat \<Rightarrow> 'st world \<Rightarrow> 'st world" where
  "sleep ms w = w\<lparr>events := events w @ [Sleep ms]\<rparr>"

text \<open>
  Modelled from the spec: \<^verbatim>\<open>wrapGCPCallError\<close> (module \<^verbatim>\<open>./kmsUtils\<close>) is missing; any
  transport or service-level failure is wrapped into the single error kind with a fixed
  descriptive prefix, preserving the underlying cause.
\<close>

definition wrapGCPCallError :: "('a, 'st) promise \<Rightarrow> string \<Rightarrow> ('a, 'st) promise" where
  "wrapGCPCallError callPromise errorMessage w =
     (case callPromise w of
        (Inl err, w') \<Rightarrow> (Inl (KmsError errorMessage (Some err)), w')
      | (Inr v, w') \<Rightarrow> (Inr v, w'))"

text \<open>
  Modelled from the spec: \<^verbatim>\<open>bufferToArrayBuffer\<close> (module \<^verbatim>\<open>../utils/buffer\<close>) is missing; a
  buffer conversion that returns the octets unmodified.
\<close>

definition bufferToArrayBuffer :: "bytes \<Rightarrow> bytes" where
  "bufferToArrayBuffer buffer = buffer"

text \<open>\<^verbatim>\<open>Buffer.from(data)\<close> on an \<^verbatim>\<open>ArrayBuffer\<close>: the same octets.\<close>

definition Buffer_from :: "bytes \<Rightarrow> bytes" where
  "Buffer_from arrayBuffer = arrayBuffer"

text \<open>A non-negative integer in a template literal: its decimal digits.\<close>

fun digit_char :: "nat \<Rightarrow> char" where
  "digit_char d = char_of (48 + d)"

function string_of_nat :: "nat \<Rightarrow> string" where
  "string_of_nat n = (if n < 10 then [digit_char n] else string_of_nat (n div 10) @ [digit_char (n mod 10)])"
  by pat_completeness auto
termination
  by (relation "measure (\<lambda>n. n)") auto

declare string_of_nat.simps [simp del]

section \<open>The provider\<close>

definition SUPPORTED_SALT_LENGTHS :: "nat list" where
  "SUPPORTED_SALT_LENGTHS = [256 div 8, 512 div 8]"

definition new_GcpKmsRsaPssProvider :: "'st KeyManagementServiceClient \<Rightarrow> 'st GcpKmsRsaPssProvider" where
  "new_GcpKmsRsaPssProvider client = \<lparr>kmsClient = client, hashAlgorithms = [''SHA-256'', ''SHA-512'']\<rparr>"

definition onGenerateKey :: "'st GcpKmsRsaPssProvider \<Rightarrow> ('a, 'st) promise" where
  "onGenerateKey this w = (Inl (KmsError ''Key generation is unsupported'' None), w)"

definition onImportKey :: "'st GcpKmsRsaPssProvider \<Rightarrow> ('a, 'st) promise" where
  "onImportKey this w = (Inl (KmsError ''Key import is unsupported'' None), w)"

definition onVerify :: "'st GcpKmsRsaPssProvider \<Rightarrow> (bool, 'st) promise" where
  "onVerify this w = (Inl (KmsError ''Signature verification is unsupported'' None), w)"

text \<open>
  \<^verbatim>\<open>kmsSign\<close>. The checksum function of the library \<^verbatim>\<open>fast-crc32c\<close> and the constant
  \<^verbatim>\<open>KMS_REQUEST_OPTIONS\<close> of the missing module \<^verbatim>\<open>./kmsUtils\<close> are parameters. The key is
  read once for the request and once more after the response. The third check reads
  \<^verbatim>\<open>response.signatureCrc32c!.value\<close>: the assertion does nothing at run time, and the read
  throws when the wrapper is absent, outside \<^verbatim>\<open>wrapGCPCallError\<close>.
\<close>

definition kmsSign ::
  "'st GcpKmsRsaPssProvider \<Rightarrow> (bytes \<Rightarrow> 32 word) \<Rightarrow> CallOptions \<Rightarrow> bytes \<Rightarrow> ref \<Rightarrow> (bytes, 'st) promise" where
  "kmsSign this calculateCRC32C KMS_REQUEST_OPTIONS plaintext key w =
     (let plaintextChecksum = calculateCRC32C plaintext in
      case wrapGCPCallError
             (call_asymmetricSign (kmsClient this)
                \<lparr>request_data = plaintext, request_dataCrc32c = plaintextChecksum,
                 request_name = kmsKeyVersionPath (objects w key)\<rparr>
                KMS_REQUEST_OPTIONS)
             ''KMS signature request failed'' w of
        (Inl err, w1) \<Rightarrow> (Inl err, w1)
      | (Inr response, w1) \<Rightarrow>
          if response_name response \<noteq> kmsKeyVersionPath (objects w1 key)
          then (Inl (KmsError (''KMS used the wrong key version ('' @ response_name response @ '')'') None), w1)
          else if \<not> response_verifiedDataCrc32c response
          then (Inl (KmsError ''KMS failed to verify plaintext CRC32C checksum'' None), w1)
          else
            let signature = response_signature response in
            case response_signatureCrc32c response of
              None \<Rightarrow> (Inl TypeError, w1)
            | Some reported \<Rightarrow>
                if uint (calculateCRC32C signature) \<noteq> reported
                then (Inl (KmsError ''Signature CRC32C checksum does not match one received from KMS'' None), w1)
                else (Inr (bufferToArrayBuffer signature), w1))"

definition onSign ::
  "'st GcpKmsRsaPssProvider \<Rightarrow> (bytes \<Rightarrow> 32 word) \<Rightarrow> CallOptions \<Rightarrow> RsaPssParams \<Rightarrow> ref \<Rightarrow> bytes \<Rightarrow> (bytes, 'st) promise" where
  "onSign this calculateCRC32C KMS_REQUEST_OPTIONS algorithm key data w =
     (if \<not> instanceof_GcpKmsRsaPssPrivateKey (objects w key)
      then (Inl (KmsError (''Cannot sign with key of unsupported type ('' @ constructor_name (objects w key) @ '')'') None), w)
      else if \<not> List.member SUPPORTED_SALT_LENGTHS (saltLength algorithm)
      then (Inl (KmsError (''Unsupported salt length of '' @ string_of_nat (saltLength algorithm) @ '' octets'') None), w)
      else kmsSign this calculateCRC32C KMS_REQUEST_OPTIONS (Buffer_from data) key w)"

section \<open>Public key retrieval\<close>

text \<open>
  \<^verbatim>\<open>_retrieveKMSPublicKey\<close>, under a name that starts with a letter: one request for the
  public key, with the options written in the source. It returns \<^verbatim>\<open>response.pem!\<close>, absent
  when the response has none.
\<close>

definition do_retrieveKMSPublicKey ::
  "string \<Rightarrow> 'st KeyManagementServiceClient \<Rightarrow> (string option, 'st) promise" where
  "do_retrieveKMSPublicKey kmsKeyVersionName client w =
     (case call_getPublicKey client kmsKeyVersionName \<lparr>maxRetries = 3, timeout = 300\<rparr> w of
        (Inl err, w1) \<Rightarrow> (Inl err, w1)
      | (Inr response, w1) \<Rightarrow> (Inr (response_pem response), w1))"

text \<open>
  \<^verbatim>\<open>Array.prototype.filter\<close> with a callback that may throw: the elements are visited in
  order, all of them, and the first throw ends the visit.
\<close>

fun filter_throwing :: "('a \<Rightarrow> js_error + bool) \<Rightarrow> 'a list \<Rightarrow> js_error + 'a list" where
  "filter_throwing f [] = Inr []"
| "filter_throwing f (x # xs) =
     (case f x of
        Inl thrown \<Rightarrow> Inl thrown
      | Inr keep \<Rightarrow>
          (case filter_throwing f xs of
             Inl thrown \<Rightarrow> Inl thrown
           | Inr ys \<Rightarrow> Inr (if keep then x # ys else ys)))"

text \<open>
  \<^verbatim>\<open>isKeyPendingCreation\<close>. An absent \<^verbatim>\<open>statusDetails\<close> is replaced by the empty list; the
  callback reads \<^verbatim>\<open>d.violations.filter\<close>, which throws on a detail without violations.
\<close>

definition isKeyPendingCreation :: "js_error \<Rightarrow> js_error + bool" where
  "isKeyPendingCreation err =
     (let details = (case statusDetails err of None \<Rightarrow> [] | Some ds \<Rightarrow> ds)
      in case filter_throwing
                (\<lambda>d. case violations d of
                       None \<Rightarrow> Inl TypeError
                     | Some vs \<Rightarrow>
                         Inr (0 < length (filter (\<lambda>v. violation_type v = ''KEY_PENDING_GENERATION'') vs)))
                details of
           Inl thrown \<Rightarrow> Inl thrown
         | Inr pendingCreationViolations \<Rightarrow> Inr (length pendingCreationViolations \<noteq> 0))"

text \<open>
  \<^verbatim>\<open>retrieveWhenReady\<close>: what the classification throws inside the \<^verbatim>\<open>catch\<close> block is the
  rejection of the whole retrieval.
\<close>

definition retrieveWhenReady ::
  "string \<Rightarrow> 'st KeyManagementServiceClient \<Rightarrow> (string option, 'st) promise" where
  "retrieveWhenReady kmsKeyVersionName client w =
     (case do_retrieveKMSPublicKey kmsKeyVersionName client w of
        (Inr key, w1) \<Rightarrow> (Inr key, w1)
      | (Inl err, w1) \<Rightarrow>
          (case isKeyPendingCreation err of
             Inl thrown \<Rightarrow> (Inl thrown, w1)
           | Inr pending \<Rightarrow>
               if \<not> pending then (Inl err, w1)
               else do_retrieveKMSPublicKey kmsKeyVersionName client (sleep 500 w1)))"

text \<open>
  \<^verbatim>\<open>pemToDer\<close>: every match of \<^verbatim>\<open>/(-----[\w ]*-----|\n)/g\<close> is replaced by the empty string.
  The matcher follows the expression: five dashes, then the starred class, greedy (one
  more character is tried first, and given back when the rest fails), then five dashes;
  failing that, the second alternative, a line feed. The search resumes after a match,
  and one character further on when there is none.
\<close>

definition is_word_char :: "char \<Rightarrow> bool" where
  "is_word_char c =
     (let n = (of_char c :: nat)
      in (48 \<le> n \<and> n \<le> 57) \<or> (65 \<le> n \<and> n \<le> 90) \<or> n = 95 \<or> (97 \<le> n \<and> n \<le> 122))"

definition in_class :: "char \<Rightarrow> bool" where
  "in_class c = (is_word_char c \<or> c = CHR '' '')"

definition line_feed :: char where
  "line_feed = CHR 0x0A"

definition match_dashes :: "string \<Rightarrow> string option" where
  "match_dashes s = (if take 5 s = ''-----'' then Some (drop 5 s) else None)"

fun match_star :: "string \<Rightarrow> string option" where
  "match_star [] = match_dashes []"
| "match_star (c # cs) =
     (if in_class c
      then (case match_star cs of Some r \<Rightarrow> Some r | None \<Rightarrow> match_dashes (c # cs))
      else match_dashes (c # cs))"

definition match_framing :: "string \<Rightarrow> string option" where
  "match_framing s = (case match_dashes s of None \<Rightarrow> None | Some r \<Rightarrow> match_star r)"

definition match_pattern :: "string \<Rightarrow> string option" where
  "match_pattern s =
     (case match_framing s of
        Some r \<Rightarrow> Some r
      | None \<Rightarrow> (case s of [] \<Rightarrow> None | c # cs \<Rightarrow> if c = line_feed then Some cs else None))"

function replace_pattern :: "string \<Rightarrow> string" where
  "replace_pattern [] = []"
| "replace_pattern (c # cs) =
     (case match_pattern (c # cs) of
        Some r \<Rightarrow> replace_pattern r
      | None \<Rightarrow> c # replace_pattern cs)"
  by pat_completeness auto
termination
proof (relation "measure length")
  show "wf (measure (length :: string \<Rightarrow> nat))"
    by simp
next
  fix c :: char and cs r :: string
  assume matched: "match_pattern (c # cs) = Some r"
  have dashes: "length v < length u" if "match_dashes u = Some v" for u v
    using that by (cases "length u < 5") (auto simp: match_dashes_def split: if_splits)
  have star: "length v < length u" if "match_star u = Some v" for u v
    using that
  proof (induction u)
    case Nil
    then show ?case by (simp add: match_dashes_def)
  next
    case (Cons a u)
    then show ?case
      by (fastforce split: if_splits option.splits dest: dashes)
  qed
  have "length r < length (c # cs)"
    using matched
    by (auto simp: match_pattern_def match_framing_def split: option.splits if_splits
        dest!: dashes star)
  then show "(r, c # cs) \<in> measure length"
    by simp
qed simp

text \<open>\<^verbatim>\<open>Buffer.from(oneliner, 'base64')\<close> is the platform's decoder, a parameter.\<close>

definition pemToDer :: "(string \<Rightarrow> bytes) \<Rightarrow> string \<Rightarrow> bytes" where
  "pemToDer decodeBase64 pemBuffer = (let oneliner = replace_pattern pemBuffer in decodeBase64 oneliner)"

text \<open>
  \<^verbatim>\<open>retrieveKMSPublicKey\<close>. Only the retrieval is inside \<^verbatim>\<open>wrapGCPCallError\<close>. \<^verbatim>\<open>pemToDer\<close> is
  called after it and first reads \<^verbatim>\<open>pemBuffer.toString\<close>, which throws when the text is absent.
\<close>

definition retrieveKMSPublicKey ::
  "(string \<Rightarrow> bytes) \<Rightarrow> string \<Rightarrow> 'st KeyManagementServiceClient \<Rightarrow> (bytes, 'st) promise" where
  "retrieveKMSPublicKey decodeBase64 kmsKeyVersionName client w =
     (case wrapGCPCallError (retrieveWhenReady kmsKeyVersionName client) ''Failed to retrieve public key'' w of
        (Inl err, w1) \<Rightarrow> (Inl err, w1)
      | (Inr publicKeyPEM, w1) \<Rightarrow>
          (case publicKeyPEM of
             None \<Rightarrow> (Inl TypeError, w1)
           | Some pemText \<Rightarrow>
               (let publicKeyDer = pemToDer decodeBase64 pemText
                in (Inr (bufferToArrayBuffer publicKeyDer), w1))))"

definition onExportKey ::
  "'st GcpKmsRsaPssProvider \<Rightarrow> (string \<Rightarrow> bytes) \<Rightarrow> KeyFormat \<Rightarrow> ref \<Rightarrow> (bytes, 'st) promise" where
  "onExportKey this decodeBase64 format key w =
     (if format \<noteq> spki
      then (Inl (KmsError ''Private key cannot be exported'' None), w)
      else if \<not> instanceof_GcpKmsRsaPssPrivateKey (objects w key)
      then (Inl (KmsError ''Key is not managed by KMS'' None), w)
      else retrieveKMSPublicKey decodeBase64 (kmsKeyVersionPath (objects w key)) (kmsClient this) w)"

section \<open>Observations\<close>

text \<open>The key version that a remote call names, and the number of public key retrievals.\<close>

fun event_key :: "event \<Rightarrow> string option" where
  "event_key (AsymmetricSignCall request options) = Some (request_name request)"
| "event_key (GetPublicKeyCall keyName options) = Some keyName"
| "event_key (Sleep ms) = None"

definition touched_keys :: "event list \<Rightarrow> string list" where
  "touched_keys evs = List.map_filter event_key evs"

fun is_getPublicKey :: "event \<Rightarrow> bool" where
  "is_getPublicKey (GetPublicKeyCall keyName options) = True"
| "is_getPublicKey (AsymmetricSignCall request options) = False"
| "is_getPublicKey (Sleep ms) = False"

definition retrieval_attempts :: "event list \<Rightarrow> nat" where
  "retrieval_attempts evs = length (filter is_getPublicKey evs)"

text \<open>
  What an export makes of a response of the remote service: the decoded PEM text, or the
  \<^verbatim>\<open>TypeError\<close> of reading a text that is absent.
\<close>

abbreviation decoded_pem :: "(string \<Rightarrow> bytes) \<Rightarrow> PublicKey \<Rightarrow> js_error + bytes" where
  "decoded_pem decode response \<equiv>
     (case response_pem response of
        None \<Rightarrow> Inl TypeError
      | Some pemText \<Rightarrow> Inr (pemToDer decode pemText))"

section \<open>Example runs\<close>

text \<open>
  Instances of the parameters for the example runs: the CRC-32C checksum (Castagnoli
  polynomial, reflected, bit by bit), a Base64 decoder that stops at the padding, the
  request options, and a client that answers from a script, counting the calls it served.
\<close>

definition crc32c_bit :: "32 word \<Rightarrow> 32 word" where
  "crc32c_bit c = (if c AND 1 = 1 then drop_bit 1 c XOR 0x82F63B78 else drop_bit 1 c)"

definition crc32c_byte :: "32 word \<Rightarrow> 8 word \<Rightarrow> 32 word" where
  "crc32c_byte c b = (crc32c_bit ^^ 8) (c XOR ucast b)"

definition crc32c :: "bytes \<Rightarrow> 32 word" where
  "crc32c bs = NOT (foldl crc32c_byte 0xFFFFFFFF bs)"

definition sextet :: "char \<Rightarrow> nat option" where
  "sextet c =
     (let n = (of_char c :: nat)
      in if 65 \<le> n \<and> n \<le> 90 then Some (n - 65)
         else if 97 \<le> n \<and> n \<le> 122 then Some (n - 71)
         else if 48 \<le> n \<and> n \<le> 57 then Some (n + 4)
         else if n = 43 \<or> n = 45 then Some 62
         else if n = 47 \<or> n = 95 then Some 63
         else None)"

fun octets :: "nat list \<Rightarrow> bytes" where
  "octets (a # b # c # d # r) =
     of_nat (a * 4 + b div 16) # of_nat (b mod 16 * 16 + c div 4) # of_nat (c mod 4 * 64 + d) # octets r"
| "octets [a, b, c] = [of_nat (a * 4 + b div 16), of_nat (b mod 16 * 16 + c div 4)]"
| "octets [a, b] = [of_nat (a * 4 + b div 16)]"
| "octets r = []"

definition base64 :: "string \<Rightarrow> bytes" where
  "base64 s = octets (List.map_filter sextet (takeWhile (\<lambda>c. c \<noteq> CHR ''='') s))"

definition example_options :: CallOptions where
  "example_options = \<lparr>maxRetries = 10, timeout = 3000\<rparr>"

definition mock_client ::
  "(AsymmetricSignRequest \<Rightarrow> js_error + AsymmetricSignResponse) \<Rightarrow> (nat \<Rightarrow> js_error + PublicKey)
     \<Rightarrow> nat KeyManagementServiceClient" where
  "mock_client sign_reply key_reply =
     \<lparr>asymmetricSign = (\<lambda>request options n. (sign_reply request, Suc n)),
      getPublicKey = (\<lambda>keyName options n. (key_reply n, Suc n))\<rparr>"

definition example_path :: string where
  "example_path = ''projects/p/locations/l/keyRings/r/cryptoKeys/k/cryptoKeyVersions/1''"

definition example_signature :: bytes where
  "example_signature = [0xDE, 0xAD, 0xBE, 0xEF]"

definition honest_reply :: "AsymmetricSignRequest \<Rightarrow> js_error + AsymmetricSignResponse" where
  "honest_reply request =
     Inr \<lparr>response_name = request_name request,
          response_verifiedDataCrc32c = (request_dataCrc32c request = crc32c (request_data request)),
          response_signature = example_signature,
          response_signatureCrc32c = Some (uint (crc32c example_signature))\<rparr>"

definition pending_error :: js_error where
  "pending_error =
     RemoteError ''FAILED_PRECONDITION''
       (Some [StatusDetail (Some [Violation ''KEY_PENDING_GENERATION''])])"

text \<open>The same rejection with a detail of another kind before the violations.\<close>

definition pending_error_with_info :: js_error where
  "pending_error_with_info =
     RemoteError ''FAILED_PRECONDITION''
       (Some [StatusDetail None, StatusDetail (Some [Violation ''KEY_PENDING_GENERATION''])])"

definition denied_error :: js_error where
  "denied_error = RemoteError ''PERMISSION_DENIED'' None"

definition example_pem :: string where
  "example_pem =
     ''-----BEGIN PUBLIC KEY-----'' @ [line_feed] @ ''AAA='' @ [line_feed] @ ''-----END PUBLIC KEY-----''"

text \<open>A store with a managed key at reference 0 and some other key everywhere else.\<close>

definition example_world :: "nat world" where
  "example_world =
     \<lparr>kms = 0,
      objects = (\<lambda>r. if r = 0 then GcpKmsRsaPssPrivateKey example_path ''SHA-256'' 1
                     else OtherObject ''CryptoKey''),
      events = []\<rparr>"

section \<open>Signing\<close>

lemma supported_salt: "n \<in> set SUPPORTED_SALT_LENGTHS \<longleftrightarrow> n = 32 \<or> n = 64"
  by (auto simp: SUPPORTED_SALT_LENGTHS_def)

lemma kmsSign_outcome:
  assumes "objects w key = GcpKmsRsaPssPrivateKey path h p"
    and "asymmetricSign (kmsClient this)
           \<lparr>request_data = plaintext, request_dataCrc32c = crc plaintext, request_name = path\<rparr>
           opts (kms w) = (reply, s)"
  shows "kmsSign this crc opts plaintext key w =
     (case reply of
        Inl err \<Rightarrow> Inl (KmsError ''KMS signature request failed'' (Some err))
      | Inr response \<Rightarrow>
          if response_name response \<noteq> path
          then Inl (KmsError (''KMS used the wrong key version ('' @ response_name response @ '')'') None)
          else if \<not> response_verifiedDataCrc32c response
          then Inl (KmsError ''KMS failed to verify plaintext CRC32C checksum'' None)
          else (case response_signatureCrc32c response of
                  None \<Rightarrow> Inl TypeError
                | Some reported \<Rightarrow>
                    if uint (crc (response_signature response)) \<noteq> reported
                    then Inl (KmsError ''Signature CRC32C checksum does not match one received from KMS'' None)
                    else Inr (response_signature response)),
      w\<lparr>kms := s,
        events := events w @
          [AsymmetricSignCall
             \<lparr>request_data = plaintext, request_dataCrc32c = crc plaintext, request_name = path\<rparr> opts]\<rparr>)"
  using assms
  by (simp add: kmsSign_def wrapGCPCallError_def call_asymmetricSign_def
      bufferToArrayBuffer_def Let_def split: sum.splits option.splits)

lemma onSign_managed:
  assumes "objects w key = GcpKmsRsaPssPrivateKey path h p"
    and "saltLength algorithm = 32 \<or> saltLength algorithm = 64"
  shows "onSign this crc opts algorithm key plaintext w = kmsSign this crc opts plaintext key w"
  using assms by (auto simp: onSign_def supported_salt Buffer_from_def)

text \<open>
  C1. A sign call on a managed key with a salt length of 32 or 64 octets, answered by a
  response that echoes the requested key path, reports the plaintext checksum as verified
  and reports the CRC32C of the signature it carries, succeeds and returns the bytes of
  that signature as they are, after exactly one remote call.
\<close>

theorem sign_returns_verified_signature:
  assumes "objects w key = GcpKmsRsaPssPrivateKey path h p"
    and "saltLength algorithm = 32 \<or> saltLength algorithm = 64"
    and "asymmetricSign (kmsClient this)
           \<lparr>request_data = plaintext, request_dataCrc32c = crc plaintext, request_name = path\<rparr>
           opts (kms w) = (Inr response, s)"
    and "response_name response = path"
    and "response_verifiedDataCrc32c response"
    and "response_signatureCrc32c response = Some (uint (crc (response_signature response)))"
  shows "onSign this crc opts algorithm key plaintext w =
     (Inr (response_signature response),
      w\<lparr>kms := s,
        events := events w @
          [AsymmetricSignCall
             \<lparr>request_data = plaintext, request_dataCrc32c = crc plaintext, request_name = path\<rparr> opts]\<rparr>)"
  unfolding onSign_managed [OF assms(1,2)] kmsSign_outcome [where crc = crc and plaintext = plaintext, OF assms(1,3)]
  using assms(4-6) by simp

theorem sign_returns_verified_signature_witness:
  "fst (onSign (new_GcpKmsRsaPssProvider (mock_client honest_reply (\<lambda>n. Inl denied_error)))
          crc32c example_options \<lparr>saltLength = 32\<rparr> 0 [1, 2, 3] example_world)
     = Inr [0xDE, 0xAD, 0xBE, 0xEF]
   \<and> fst (onSign (new_GcpKmsRsaPssProvider (mock_client honest_reply (\<lambda>n. Inl denied_error)))
          crc32c example_options \<lparr>saltLength = 64\<rparr> 0 [1, 2, 3] example_world)
     = Inr [0xDE, 0xAD, 0xBE, 0xEF]"
  using
    sign_returns_verified_signature [of example_world 0 example_path "''SHA-256''" 1
      "\<lparr>saltLength = 32\<rparr>" "new_GcpKmsRsaPssProvider (mock_client honest_reply (\<lambda>n. Inl denied_error))"
      "[1, 2, 3]" crc32c example_options
      "\<lparr>response_name = example_path, response_verifiedDataCrc32c = True,
        response_signature = example_signature,
        response_signatureCrc32c = Some (uint (crc32c example_signature))\<rparr>" 1]
    sign_returns_verified_signature [of example_world 0 example_path "''SHA-256''" 1
      "\<lparr>saltLength = 64\<rparr>" "new_GcpKmsRsaPssProvider (mock_client honest_reply (\<lambda>n. Inl denied_error))"
      "[1, 2, 3]" crc32c example_options
      "\<lparr>response_name = example_path, response_verifiedDataCrc32c = True,
        response_signature = example_signature,
        response_signatureCrc32c = Some (uint (crc32c example_signature))\<rparr>" 1]
  by (simp add: example_world_def new_GcpKmsRsaPssProvider_def mock_client_def honest_reply_def
      example_signature_def)

text \<open>
  C2. Once the remote service has answered a sign request, each of the three checks is
  fatal on its own: when the echoed key path differs from the requested one, or the
  verified-plaintext-checksum flag is false, or the checksum computed over the returned
  signature differs from the reported one, sign fails with the error of the first check
  that fails, and no signature is returned. A response that reports no checksum of the
  signature at all fails the third check with the \<^verbatim>\<open>TypeError\<close> of the read.
\<close>

theorem sign_rejects_untrusted_response:
  assumes "objects w key = GcpKmsRsaPssPrivateKey path h p"
    and "saltLength algorithm = 32 \<or> saltLength algorithm = 64"
    and "asymmetricSign (kmsClient this)
           \<lparr>request_data = plaintext, request_dataCrc32c = crc plaintext, request_name = path\<rparr>
           opts (kms w) = (Inr response, s)"
    and "response_name response \<noteq> path
         \<or> \<not> response_verifiedDataCrc32c response
         \<or> response_signatureCrc32c response \<noteq> Some (uint (crc (response_signature response)))"
  shows "fst (onSign this crc opts algorithm key plaintext w) =
     Inl (if response_name response \<noteq> path
          then KmsError (''KMS used the wrong key version ('' @ response_name response @ '')'') None
          else if \<not> response_verifiedDataCrc32c response
          then KmsError ''KMS failed to verify plaintext CRC32C checksum'' None
          else if response_signatureCrc32c response = None
          then TypeError
          else KmsError ''Signature CRC32C checksum does not match one received from KMS'' None)"
  unfolding onSign_managed [OF assms(1,2)] kmsSign_outcome [where crc = crc and plaintext = plaintext, OF assms(1,3)]
  using assms(4) by (auto split: option.splits)

theorem sign_rejects_untrusted_response_witness:
  "fst (onSign
          (new_GcpKmsRsaPssProvider
             (mock_client
                (\<lambda>request. Inr \<lparr>response_name = ''another key'', response_verifiedDataCrc32c = True,
                   response_signature = example_signature,
                   response_signatureCrc32c = Some (uint (crc32c example_signature))\<rparr>)
                (\<lambda>n. Inl denied_error)))
          crc32c example_options \<lparr>saltLength = 32\<rparr> 0 [1, 2, 3] example_world)
     = Inl (KmsError ''KMS used the wrong key version (another key)'' None)
   \<and> fst (onSign
          (new_GcpKmsRsaPssProvider
             (mock_client
                (\<lambda>request. Inr \<lparr>response_name = example_path, response_verifiedDataCrc32c = False,
                   response_signature = example_signature,
                   response_signatureCrc32c = Some (uint (crc32c example_signature))\<rparr>)
                (\<lambda>n. Inl denied_error)))
          crc32c example_options \<lparr>saltLength = 32\<rparr> 0 [1, 2, 3] example_world)
     = Inl (KmsError ''KMS failed to verify plaintext CRC32C checksum'' None)
   \<and> fst (onSign
          (new_GcpKmsRsaPssProvider
             (mock_client
                (\<lambda>request. Inr \<lparr>response_name = example_path, response_verifiedDataCrc32c = True,
                   response_signature = example_signature,
                   response_signatureCrc32c = Some (uint (crc32c example_signature) + 1)\<rparr>)
                (\<lambda>n. Inl denied_error)))
          crc32c example_options \<lparr>saltLength = 32\<rparr> 0 [1, 2, 3] example_world)
     = Inl (KmsError ''Signature CRC32C checksum does not match one received from KMS'' None)
   \<and> fst (onSign
          (new_GcpKmsRsaPssProvider
             (mock_client
                (\<lambda>request. Inr \<lparr>response_name = example_path, response_verifiedDataCrc32c = True,
                   response_signature = example_signature, response_signatureCrc32c = None\<rparr>)
                (\<lambda>n. Inl denied_error)))
          crc32c example_options \<lparr>saltLength = 32\<rparr> 0 [1, 2, 3] example_world)
     = Inl TypeError"
  using
    sign_rejects_untrusted_response [of example_world 0 example_path "''SHA-256''" 1
      "\<lparr>saltLength = 32\<rparr>"
      "new_GcpKmsRsaPssProvider
         (mock_client
            (\<lambda>request. Inr \<lparr>response_name = example_path, response_verifiedDataCrc32c = True,
               response_signature = example_signature, response_signatureCrc32c = None\<rparr>)
            (\<lambda>n. Inl denied_error))"
      "[1, 2, 3]" crc32c example_options
      "\<lparr>response_name = example_path, response_verifiedDataCrc32c = True,
        response_signature = example_signature, response_signatureCrc32c = None\<rparr>" 1]
    sign_rejects_untrusted_response [of example_world 0 example_path "''SHA-256''" 1
      "\<lparr>saltLength = 32\<rparr>"
      "new_GcpKmsRsaPssProvider
         (mock_client
            (\<lambda>request. Inr \<lparr>response_name = ''another key'', response_verifiedDataCrc32c = True,
               response_signature = example_signature,
               response_signatureCrc32c = Some (uint (crc32c example_signature))\<rparr>)
            (\<lambda>n. Inl denied_error))"
      "[1, 2, 3]" crc32c example_options
      "\<lparr>response_name = ''another key'', response_verifiedDataCrc32c = True,
        response_signature = example_signature,
        response_signatureCrc32c = Some (uint (crc32c example_signature))\<rparr>" 1]
    sign_rejects_untrusted_response [of example_world 0 example_path "''SHA-256''" 1
      "\<lparr>saltLength = 32\<rparr>"
      "new_GcpKmsRsaPssProvider
         (mock_client
            (\<lambda>request. Inr \<lparr>response_name = example_path, response_verifiedDataCrc32c = False,
               response_signature = example_signature,
               response_signatureCrc32c = Some (uint (crc32c example_signature))\<rparr>)
            (\<lambda>n. Inl denied_error))"
      "[1, 2, 3]" crc32c example_options
      "\<lparr>response_name = example_path, response_verifiedDataCrc32c = False,
        response_signature = example_signature,
        response_signatureCrc32c = Some (uint (crc32c example_signature))\<rparr>" 1]
    sign_rejects_untrusted_response [of example_world 0 example_path "''SHA-256''" 1
      "\<lparr>saltLength = 32\<rparr>"
      "new_GcpKmsRsaPssProvider
         (mock_client
            (\<lambda>request. Inr \<lparr>response_name = example_path, response_verifiedDataCrc32c = True,
               response_signature = example_signature,
               response_signatureCrc32c = Some (uint (crc32c example_signature) + 1)\<rparr>)
            (\<lambda>n. Inl denied_error))"
      "[1, 2, 3]" crc32c example_options
      "\<lparr>response_name = example_path, response_verifiedDataCrc32c = True,
        response_signature = example_signature,
        response_signatureCrc32c = Some (uint (crc32c example_signature) + 1)\<rparr>" 1]
  by (simp add: example_world_def new_GcpKmsRsaPssProvider_def mock_client_def example_path_def)

text \<open>
  C3. A sign call on a managed key whose salt length is neither 32 nor 64 octets fails
  with the unsupported-salt-length error and leaves the world as it was: the remote sign
  operation is not invoked.
\<close>

theorem sign_rejects_unsupported_salt_length:
  assumes "instanceof_GcpKmsRsaPssPrivateKey (objects w key)"
    and "saltLength algorithm \<notin> {32, 64}"
  shows "onSign this crc opts algorithm key plaintext w =
     (Inl (KmsError (''Unsupported salt length of '' @ string_of_nat (saltLength algorithm) @ '' octets'') None), w)"
  using assms by (simp add: onSign_def supported_salt)

theorem sign_rejects_unsupported_salt_length_witness:
  "onSign (new_GcpKmsRsaPssProvider (mock_client honest_reply (\<lambda>n. Inl denied_error)))
     crc32c example_options \<lparr>saltLength = 20\<rparr> 0 [1, 2, 3] example_world
   = (Inl (KmsError ''Unsupported salt length of 20 octets'' None), example_world)"
proof -
  have digits: "string_of_nat 20 = ''20''"
    by code_simp
  show ?thesis
    using sign_rejects_unsupported_salt_length [of example_world 0 "\<lparr>saltLength = 20\<rparr>"
        "new_GcpKmsRsaPssProvider (mock_client honest_reply (\<lambda>n. Inl denied_error))"
        crc32c example_options "[1, 2, 3]"]
    by (simp add: example_world_def digits)
qed

text \<open>
  C5. Key generation, key import and signature verification fail for every provider and
  in every world, and leave the world as it was: no remote call is made.
\<close>

theorem unsupported_operations_always_fail:
  "onGenerateKey this w = (Inl (KmsError ''Key generation is unsupported'' None), w)
   \<and> onImportKey this w = (Inl (KmsError ''Key import is unsupported'' None), w)
   \<and> onVerify this w = (Inl (KmsError ''Signature verification is unsupported'' None), w)"
  by (simp add: onGenerateKey_def onImportKey_def onVerify_def)

text \<open>
  C10. In sign the check of the key type comes first: with a key that is not a managed
  key, sign fails with the unsupported-key-type error whatever the salt length, leaving
  the world as it was; and whenever sign fails with the unsupported-salt-length error, the
  key is a managed key.
\<close>

theorem key_type_check_precedes_salt_length:
  "(\<not> instanceof_GcpKmsRsaPssPrivateKey (objects w key) \<longrightarrow>
      onSign this crc opts algorithm key plaintext w =
        (Inl (KmsError (''Cannot sign with key of unsupported type ('' @ constructor_name (objects w key) @ '')'') None), w))
   \<and> (fst (onSign this crc opts algorithm key plaintext w) =
         Inl (KmsError (''Unsupported salt length of '' @ string_of_nat (saltLength algorithm) @ '' octets'') None) \<longrightarrow>
       instanceof_GcpKmsRsaPssPrivateKey (objects w key))"
  by (auto simp: onSign_def)

theorem key_type_check_precedes_salt_length_witness:
  "onSign (new_GcpKmsRsaPssProvider (mock_client honest_reply (\<lambda>n. Inl denied_error)))
     crc32c example_options \<lparr>saltLength = 20\<rparr> 7 [1, 2, 3] example_world
   = (Inl (KmsError ''Cannot sign with key of unsupported type (CryptoKey)'' None), example_world)
   \<and> instanceof_GcpKmsRsaPssPrivateKey (objects example_world 0)"
proof -
  have digits: "string_of_nat 20 = ''20''"
    by code_simp
  have salt: "fst (onSign (new_GcpKmsRsaPssProvider (mock_client honest_reply (\<lambda>n. Inl denied_error)))
     crc32c example_options \<lparr>saltLength = 20\<rparr> 0 [1, 2, 3] example_world)
     = Inl (KmsError (''Unsupported salt length of '' @ string_of_nat (saltLength \<lparr>saltLength = 20\<rparr>) @ '' octets'') None)"
    by (simp add: onSign_def example_world_def supported_salt)
  show ?thesis
    using
      key_type_check_precedes_salt_length [of example_world 7
        "new_GcpKmsRsaPssProvider (mock_client honest_reply (\<lambda>n. Inl denied_error))"
        crc32c example_options "\<lparr>saltLength = 20\<rparr>" "[1, 2, 3]"]
      key_type_check_precedes_salt_length [of example_world 0
        "new_GcpKmsRsaPssProvider (mock_client honest_reply (\<lambda>n. Inl denied_error))"
        crc32c example_options "\<lparr>saltLength = 20\<rparr>" "[1, 2, 3]"]
      salt
    by (simp add: example_world_def)
qed

section \<open>Public key export\<close>

lemma filter_throwing_violations:
  "filter_throwing (\<lambda>d. case violations d of None \<Rightarrow> Inl TypeError | Some vs \<Rightarrow> Inr (P vs)) ds =
     (if \<exists>d \<in> set ds. violations d = None then Inl TypeError
      else Inr (filter (\<lambda>d. P (the (violations d))) ds))"
  by (induction ds) (auto split: option.splits)

lemma isKeyPendingCreation_outcome:
  "isKeyPendingCreation err =
     (let details = (case statusDetails err of None \<Rightarrow> [] | Some ds \<Rightarrow> ds)
      in if \<exists>d \<in> set details. violations d = None then Inl TypeError
         else Inr (\<exists>d \<in> set details. \<exists>v \<in> set (the (violations d)).
                     violation_type v = ''KEY_PENDING_GENERATION''))"
  unfolding isKeyPendingCreation_def Let_def filter_throwing_violations
  by (cases "statusDetails err") (auto simp: filter_empty_conv)

lemma retrieveWhenReady_outcome:
  assumes "getPublicKey client path \<lparr>maxRetries = 3, timeout = 300\<rparr> (kms w) = (a1, s1)"
    and "getPublicKey client path \<lparr>maxRetries = 3, timeout = 300\<rparr> s1 = (a2, s2)"
  shows "retrieveWhenReady path client w =
     (case a1 of
        Inr response \<Rightarrow>
          (Inr (response_pem response),
           w\<lparr>kms := s1, events := events w @ [GetPublicKeyCall path \<lparr>maxRetries = 3, timeout = 300\<rparr>]\<rparr>)
      | Inl e1 \<Rightarrow>
          (case isKeyPendingCreation e1 of
             Inl thrown \<Rightarrow>
               (Inl thrown,
                w\<lparr>kms := s1, events := events w @ [GetPublicKeyCall path \<lparr>maxRetries = 3, timeout = 300\<rparr>]\<rparr>)
           | Inr pending \<Rightarrow>
               if \<not> pending
               then (Inl e1,
                     w\<lparr>kms := s1, events := events w @ [GetPublicKeyCall path \<lparr>maxRetries = 3, timeout = 300\<rparr>]\<rparr>)
               else (case a2 of Inl e2 \<Rightarrow> Inl e2 | Inr response \<Rightarrow> Inr (response_pem response),
                     w\<lparr>kms := s2,
                       events := events w @
                         [GetPublicKeyCall path \<lparr>maxRetries = 3, timeout = 300\<rparr>, Sleep 500,
                          GetPublicKeyCall path \<lparr>maxRetries = 3, timeout = 300\<rparr>]\<rparr>)))"
  using assms
  by (simp add: retrieveWhenReady_def do_retrieveKMSPublicKey_def call_getPublicKey_def sleep_def
      split: sum.splits)

lemma retrieveKMSPublicKey_outcome:
  assumes "getPublicKey client path \<lparr>maxRetries = 3, timeout = 300\<rparr> (kms w) = (a1, s1)"
    and "getPublicKey client path \<lparr>maxRetries = 3, timeout = 300\<rparr> s1 = (a2, s2)"
  shows "retrieveKMSPublicKey decode path client w =
     (case a1 of
        Inr response \<Rightarrow>
          (decoded_pem decode response,
           w\<lparr>kms := s1, events := events w @ [GetPublicKeyCall path \<lparr>maxRetries = 3, timeout = 300\<rparr>]\<rparr>)
      | Inl e1 \<Rightarrow>
          (case isKeyPendingCreation e1 of
             Inl thrown \<Rightarrow>
               (Inl (KmsError ''Failed to retrieve public key'' (Some thrown)),
                w\<lparr>kms := s1, events := events w @ [GetPublicKeyCall path \<lparr>maxRetries = 3, timeout = 300\<rparr>]\<rparr>)
           | Inr pending \<Rightarrow>
               if \<not> pending
               then (Inl (KmsError ''Failed to retrieve public key'' (Some e1)),
                     w\<lparr>kms := s1, events := events w @ [GetPublicKeyCall path \<lparr>maxRetries = 3, timeout = 300\<rparr>]\<rparr>)
               else (case a2 of
                       Inl e2 \<Rightarrow> Inl (KmsError ''Failed to retrieve public key'' (Some e2))
                     | Inr response \<Rightarrow> decoded_pem decode response,
                     w\<lparr>kms := s2,
                       events := events w @
                         [GetPublicKeyCall path \<lparr>maxRetries = 3, timeout = 300\<rparr>, Sleep 500,
                          GetPublicKeyCall path \<lparr>maxRetries = 3, timeout = 300\<rparr>]\<rparr>)))"
  unfolding retrieveKMSPublicKey_def wrapGCPCallError_def retrieveWhenReady_outcome [OF assms]
  by (simp add: bufferToArrayBuffer_def split: sum.splits option.splits)

lemma onExportKey_managed:
  assumes "objects w key = GcpKmsRsaPssPrivateKey path h p"
  shows "onExportKey this decode spki key w = retrieveKMSPublicKey decode path (kmsClient this) w"
  using assms by (simp add: onExportKey_def)

lemma export_retrieval_attempts:
  assumes key: "objects w key = GcpKmsRsaPssPrivateKey path h p"
  shows "retrieval_attempts (events (snd (onExportKey this decode spki key w)))
           \<le> retrieval_attempts (events w) + 2"
proof -
  obtain a1 s1 where first:
    "getPublicKey (kmsClient this) path \<lparr>maxRetries = 3, timeout = 300\<rparr> (kms w) = (a1, s1)"
    by (cases "getPublicKey (kmsClient this) path \<lparr>maxRetries = 3, timeout = 300\<rparr> (kms w)")
  obtain a2 s2 where second:
    "getPublicKey (kmsClient this) path \<lparr>maxRetries = 3, timeout = 300\<rparr> s1 = (a2, s2)"
    by (cases "getPublicKey (kmsClient this) path \<lparr>maxRetries = 3, timeout = 300\<rparr> s1")
  show ?thesis
    unfolding onExportKey_managed [OF key] retrieveKMSPublicKey_outcome [OF first second]
    by (simp add: retrieval_attempts_def split: sum.splits)
qed

lemma export_example_decoded: "base64 (replace_pattern example_pem) = [0, 0]"
  by (simp add: example_pem_def match_pattern_def match_framing_def match_dashes_def
      in_class_def is_word_char_def line_feed_def base64_def sextet_def)

text \<open>
  C4. The first request of an export is rejected with a structured detail that carries a
  violation of type \<^verbatim>\<open>KEY_PENDING_GENERATION\<close>. When that detail is the only one, export
  pauses for 500 milliseconds, asks once more and returns the key of the second answer.
  When a detail without violations stands beside it, the classification throws: export
  neither pauses nor asks again, and fails after the one request with the \<^verbatim>\<open>TypeError\<close> as
  the cause, although the remote service would have answered the second request.
\<close>

theorem export_gives_up_on_detail_without_violations:
  "onExportKey
     (new_GcpKmsRsaPssProvider
        (mock_client honest_reply
           (\<lambda>n. if n = 0 then Inl pending_error else Inr \<lparr>response_pem = Some example_pem\<rparr>)))
     base64 spki 0 example_world
   = (Inr [0, 0],
      example_world
        \<lparr>kms := 2,
         events :=
           [GetPublicKeyCall example_path \<lparr>maxRetries = 3, timeout = 300\<rparr>, Sleep 500,
            GetPublicKeyCall example_path \<lparr>maxRetries = 3, timeout = 300\<rparr>]\<rparr>)
   \<and> onExportKey
       (new_GcpKmsRsaPssProvider
          (mock_client honest_reply
             (\<lambda>n. if n = 0 then Inl pending_error_with_info else Inr \<lparr>response_pem = Some example_pem\<rparr>)))
       base64 spki 0 example_world
   = (Inl (KmsError ''Failed to retrieve public key'' (Some TypeError)),
      example_world
        \<lparr>kms := 1, events := [GetPublicKeyCall example_path \<lparr>maxRetries = 3, timeout = 300\<rparr>]\<rparr>)"
proof -
  have key: "objects example_world 0 = GcpKmsRsaPssPrivateKey example_path ''SHA-256'' 1"
    by (simp add: example_world_def)
  have pending: "isKeyPendingCreation pending_error = Inr True"
    by (simp add: isKeyPendingCreation_def pending_error_def)
  have thrown: "isKeyPendingCreation pending_error_with_info = Inl TypeError"
    by (simp add: isKeyPendingCreation_def pending_error_with_info_def)
  have retried: "onExportKey
     (new_GcpKmsRsaPssProvider
        (mock_client honest_reply
           (\<lambda>n. if n = 0 then Inl pending_error else Inr \<lparr>response_pem = Some example_pem\<rparr>)))
     base64 spki 0 example_world
   = (Inr [0, 0],
      example_world
        \<lparr>kms := 2,
         events :=
           [GetPublicKeyCall example_path \<lparr>maxRetries = 3, timeout = 300\<rparr>, Sleep 500,
            GetPublicKeyCall example_path \<lparr>maxRetries = 3, timeout = 300\<rparr>]\<rparr>)"
    unfolding onExportKey_managed [OF key]
    by (subst retrieveKMSPublicKey_outcome
        [where ?a1.0 = "Inl pending_error" and ?s1.0 = 1
           and ?a2.0 = "Inr \<lparr>response_pem = Some example_pem\<rparr>" and ?s2.0 = 2])
      (simp_all add: new_GcpKmsRsaPssProvider_def mock_client_def example_world_def pending
        pemToDer_def export_example_decoded)
  have gave_up: "onExportKey
       (new_GcpKmsRsaPssProvider
          (mock_client honest_reply
             (\<lambda>n. if n = 0 then Inl pending_error_with_info else Inr \<lparr>response_pem = Some example_pem\<rparr>)))
       base64 spki 0 example_world
   = (Inl (KmsError ''Failed to retrieve public key'' (Some TypeError)),
      example_world
        \<lparr>kms := 1, events := [GetPublicKeyCall example_path \<lparr>maxRetries = 3, timeout = 300\<rparr>]\<rparr>)"
    unfolding onExportKey_managed [OF key]
    by (subst retrieveKMSPublicKey_outcome
        [where ?a1.0 = "Inl pending_error_with_info" and ?s1.0 = 1
           and ?a2.0 = "Inr \<lparr>response_pem = Some example_pem\<rparr>" and ?s2.0 = 2])
      (simp_all add: new_GcpKmsRsaPssProvider_def mock_client_def example_world_def thrown)
  show ?thesis
    using retried gave_up by (rule conjI)
qed

text \<open>
  C6. An export in a format other than \<^verbatim>\<open>spki\<close>, or of a key that is not a managed key,
  fails and leaves the world as it was: the remote service is not called. Otherwise the
  export is the retrieval of the public key under the path of the key, and when the remote
  service answers the first request with a PEM text the export returns the decoded public
  key.
\<close>

theorem export_guards:
  "(format \<noteq> spki \<longrightarrow>
      onExportKey this decode format key w = (Inl (KmsError ''Private key cannot be exported'' None), w))
   \<and> (format = spki \<and> \<not> instanceof_GcpKmsRsaPssPrivateKey (objects w key) \<longrightarrow>
      onExportKey this decode format key w = (Inl (KmsError ''Key is not managed by KMS'' None), w))
   \<and> (\<forall>path h p. format = spki \<and> objects w key = GcpKmsRsaPssPrivateKey path h p \<longrightarrow>
      onExportKey this decode format key w = retrieveKMSPublicKey decode path (kmsClient this) w)
   \<and> (\<forall>path h p response s pemText. format = spki \<and> objects w key = GcpKmsRsaPssPrivateKey path h p
        \<and> getPublicKey (kmsClient this) path \<lparr>maxRetries = 3, timeout = 300\<rparr> (kms w) = (Inr response, s)
        \<and> response_pem response = Some pemText \<longrightarrow>
      onExportKey this decode format key w =
        (Inr (decode (replace_pattern pemText)),
         w\<lparr>kms := s, events := events w @ [GetPublicKeyCall path \<lparr>maxRetries = 3, timeout = 300\<rparr>]\<rparr>))"
proof -
  have answered: "onExportKey this decode format key w =
        (Inr (decode (replace_pattern pemText)),
         w\<lparr>kms := s, events := events w @ [GetPublicKeyCall path \<lparr>maxRetries = 3, timeout = 300\<rparr>]\<rparr>)"
    if "format = spki" and key: "objects w key = GcpKmsRsaPssPrivateKey path h p"
      and first: "getPublicKey (kmsClient this) path \<lparr>maxRetries = 3, timeout = 300\<rparr> (kms w) = (Inr response, s)"
      and present: "response_pem response = Some pemText"
    for path h p response s pemText
  proof -
    obtain a2 s2 where second:
      "getPublicKey (kmsClient this) path \<lparr>maxRetries = 3, timeout = 300\<rparr> s = (a2, s2)"
      by (cases "getPublicKey (kmsClient this) path \<lparr>maxRetries = 3, timeout = 300\<rparr> s")
    show ?thesis
      unfolding \<open>format = spki\<close> onExportKey_managed [OF key] retrieveKMSPublicKey_outcome [OF first second]
      using present by (simp add: pemToDer_def)
  qed
  show ?thesis
    using answered by (auto simp: onExportKey_def)
qed

theorem export_guards_witness:
  "onExportKey (new_GcpKmsRsaPssProvider (mock_client honest_reply (\<lambda>n. Inr \<lparr>response_pem = Some example_pem\<rparr>)))
     base64 pkcs8 0 example_world
   = (Inl (KmsError ''Private key cannot be exported'' None), example_world)
   \<and> onExportKey (new_GcpKmsRsaPssProvider (mock_client honest_reply (\<lambda>n. Inr \<lparr>response_pem = Some example_pem\<rparr>)))
       base64 spki 7 example_world
   = (Inl (KmsError ''Key is not managed by KMS'' None), example_world)
   \<and> onExportKey (new_GcpKmsRsaPssProvider (mock_client honest_reply (\<lambda>n. Inr \<lparr>response_pem = Some example_pem\<rparr>)))
       base64 spki 0 example_world
   = (Inr [0, 0],
      example_world
        \<lparr>kms := 1, events := [GetPublicKeyCall example_path \<lparr>maxRetries = 3, timeout = 300\<rparr>]\<rparr>)"
  using
    export_guards [of pkcs8
      "new_GcpKmsRsaPssProvider (mock_client honest_reply (\<lambda>n. Inr \<lparr>response_pem = Some example_pem\<rparr>))"
      base64 0 example_world]
    export_guards [of spki
      "new_GcpKmsRsaPssProvider (mock_client honest_reply (\<lambda>n. Inr \<lparr>response_pem = Some example_pem\<rparr>))"
      base64 7 example_world]
    export_guards [of spki
      "new_GcpKmsRsaPssProvider (mock_client honest_reply (\<lambda>n. Inr \<lparr>response_pem = Some example_pem\<rparr>))"
      base64 0 example_world, THEN conjunct2, THEN conjunct2, THEN conjunct2]
    export_example_decoded
  by (simp add: example_world_def new_GcpKmsRsaPssProvider_def mock_client_def)

section \<open>Errors\<close>

lemma onSign_unmanaged_error_kind:
  assumes "\<not> instanceof_GcpKmsRsaPssPrivateKey (objects w key)
           \<or> \<not> (saltLength algorithm = 32 \<or> saltLength algorithm = 64)"
    and "fst (onSign this crc opts algorithm key plaintext w) = Inl e"
  shows "isKmsError e"
  using assms by (auto simp: onSign_def supported_salt split: if_splits)

lemma onExportKey_unmanaged_error_kind:
  assumes "format \<noteq> spki \<or> \<not> instanceof_GcpKmsRsaPssPrivateKey (objects w key)"
    and "fst (onExportKey this decode format key w) = Inl e"
  shows "isKmsError e"
  using assms by (auto simp: onExportKey_def split: if_splits)

text \<open>
  C7, as it is stated, fails. A sign response without the checksum of the signature and
  a public key response without the PEM text make the read of the absent value throw after
  the wrapped remote call, so that a \<^verbatim>\<open>TypeError\<close> reaches the caller; and a rejection with a
  detail without violations is replaced, as the cause, by the \<^verbatim>\<open>TypeError\<close> of its
  classification.
\<close>

theorem failures_are_KmsError_counterexample:
  "fst (onSign
          (new_GcpKmsRsaPssProvider
             (mock_client
                (\<lambda>request. Inr \<lparr>response_name = request_name request, response_verifiedDataCrc32c = True,
                   response_signature = example_signature, response_signatureCrc32c = None\<rparr>)
                (\<lambda>n. Inr \<lparr>response_pem = None\<rparr>)))
          crc32c example_options \<lparr>saltLength = 32\<rparr> 0 [1, 2, 3] example_world)
     = Inl TypeError
   \<and> fst (onExportKey
          (new_GcpKmsRsaPssProvider
             (mock_client
                (\<lambda>request. Inr \<lparr>response_name = request_name request, response_verifiedDataCrc32c = True,
                   response_signature = example_signature, response_signatureCrc32c = None\<rparr>)
                (\<lambda>n. Inr \<lparr>response_pem = None\<rparr>)))
          base64 spki 0 example_world)
     = Inl TypeError
   \<and> \<not> isKmsError TypeError
   \<and> fst (onExportKey
          (new_GcpKmsRsaPssProvider (mock_client honest_reply (\<lambda>n. Inl pending_error_with_info)))
          base64 spki 0 example_world)
     = Inl (KmsError ''Failed to retrieve public key'' (Some TypeError))
   \<and> TypeError \<noteq> pending_error_with_info"
proof -
  have key: "objects example_world 0 = GcpKmsRsaPssPrivateKey example_path ''SHA-256'' 1"
    by (simp add: example_world_def)
  have thrown: "isKeyPendingCreation pending_error_with_info = Inl TypeError"
    by (simp add: isKeyPendingCreation_def pending_error_with_info_def)
  have signed: "fst (onSign
          (new_GcpKmsRsaPssProvider
             (mock_client
                (\<lambda>request. Inr \<lparr>response_name = request_name request, response_verifiedDataCrc32c = True,
                   response_signature = example_signature, response_signatureCrc32c = None\<rparr>)
                (\<lambda>n. Inr \<lparr>response_pem = None\<rparr>)))
          crc32c example_options \<lparr>saltLength = 32\<rparr> 0 [1, 2, 3] example_world)
     = Inl TypeError"
    unfolding onSign_managed [OF key, of "\<lparr>saltLength = 32\<rparr>", simplified]
    by (subst kmsSign_outcome [OF key,
          where reply = "Inr \<lparr>response_name = example_path, response_verifiedDataCrc32c = True,
                   response_signature = example_signature, response_signatureCrc32c = None\<rparr>"
            and s = 1])
      (simp_all add: new_GcpKmsRsaPssProvider_def mock_client_def example_world_def)
  have exported: "fst (onExportKey
          (new_GcpKmsRsaPssProvider
             (mock_client
                (\<lambda>request. Inr \<lparr>response_name = request_name request, response_verifiedDataCrc32c = True,
                   response_signature = example_signature, response_signatureCrc32c = None\<rparr>)
                (\<lambda>n. Inr \<lparr>response_pem = None\<rparr>)))
          base64 spki 0 example_world)
     = Inl TypeError"
    unfolding onExportKey_managed [OF key]
    by (subst retrieveKMSPublicKey_outcome
        [where ?a1.0 = "Inr \<lparr>response_pem = None\<rparr>" and ?s1.0 = 1
           and ?a2.0 = "Inr \<lparr>response_pem = None\<rparr>" and ?s2.0 = 2])
      (simp_all add: new_GcpKmsRsaPssProvider_def mock_client_def example_world_def)
  have replaced: "fst (onExportKey
          (new_GcpKmsRsaPssProvider (mock_client honest_reply (\<lambda>n. Inl pending_error_with_info)))
          base64 spki 0 example_world)
     = Inl (KmsError ''Failed to retrieve public key'' (Some TypeError))"
    unfolding onExportKey_managed [OF key]
    by (subst retrieveKMSPublicKey_outcome
        [where ?a1.0 = "Inl pending_error_with_info" and ?s1.0 = 1
           and ?a2.0 = "Inl pending_error_with_info" and ?s2.0 = 2])
      (simp_all add: new_GcpKmsRsaPssProvider_def mock_client_def example_world_def thrown)
  show ?thesis
    using signed exported replaced by (simp add: pending_error_with_info_def)
qed

text \<open>
  C7, amended. Where the answers of the remote service carry what the code reads without
  a check (a sign response its checksum of the signature, a public key response its PEM
  text), every failure of sign and of export is a \<^verbatim>\<open>KmsError\<close>, which carries a message. A
  rejection of the remote sign request makes sign fail with a \<^verbatim>\<open>KmsError\<close> whose cause is
  that rejection. A rejection of the first public key request that is classified as not
  pending, and any rejection of the second request, makes export fail with a \<^verbatim>\<open>KmsError\<close>
  whose cause is that rejection.
\<close>

theorem failures_are_KmsError:
  assumes sign_reply:
      "asymmetricSign (kmsClient this)
         \<lparr>request_data = plaintext, request_dataCrc32c = crc plaintext,
          request_name = kmsKeyVersionPath (objects w key)\<rparr>
         opts (kms w) = (a, s)"
    and sign_checksum: "\<forall>response. a = Inr response \<longrightarrow> response_signatureCrc32c response \<noteq> None"
    and first:
      "getPublicKey (kmsClient this) (kmsKeyVersionPath (objects w key))
         \<lparr>maxRetries = 3, timeout = 300\<rparr> (kms w) = (a1, s1)"
    and second:
      "getPublicKey (kmsClient this) (kmsKeyVersionPath (objects w key))
         \<lparr>maxRetries = 3, timeout = 300\<rparr> s1 = (a2, s2)"
    and first_pem: "\<forall>response. a1 = Inr response \<longrightarrow> response_pem response \<noteq> None"
    and second_pem:
      "\<forall>e1 response. a1 = Inl e1 \<and> isKeyPendingCreation e1 = Inr True \<and> a2 = Inr response \<longrightarrow>
         response_pem response \<noteq> None"
  shows "(\<forall>e. fst (onSign this crc opts algorithm key plaintext w) = Inl e \<longrightarrow> isKmsError e)
   \<and> (\<forall>e. fst (onExportKey this decode format key w) = Inl e \<longrightarrow> isKmsError e)
   \<and> (\<forall>err.
        instanceof_GcpKmsRsaPssPrivateKey (objects w key)
        \<and> (saltLength algorithm = 32 \<or> saltLength algorithm = 64)
        \<and> a = Inl err \<longrightarrow>
        fst (onSign this crc opts algorithm key plaintext w) =
          Inl (KmsError ''KMS signature request failed'' (Some err)))
   \<and> (\<forall>e1.
        instanceof_GcpKmsRsaPssPrivateKey (objects w key)
        \<and> a1 = Inl e1 \<and> isKeyPendingCreation e1 = Inr False \<longrightarrow>
        fst (onExportKey this decode spki key w) =
          Inl (KmsError ''Failed to retrieve public key'' (Some e1)))
   \<and> (\<forall>e1 e2.
        instanceof_GcpKmsRsaPssPrivateKey (objects w key)
        \<and> a1 = Inl e1 \<and> isKeyPendingCreation e1 = Inr True \<and> a2 = Inl e2 \<longrightarrow>
        fst (onExportKey this decode spki key w) =
          Inl (KmsError ''Failed to retrieve public key'' (Some e2)))"
proof -
  have signing: "fst (onSign this crc opts algorithm key plaintext w) =
     (case a of
        Inl err \<Rightarrow> Inl (KmsError ''KMS signature request failed'' (Some err))
      | Inr response \<Rightarrow>
          if response_name response \<noteq> kmsKeyVersionPath (objects w key)
          then Inl (KmsError (''KMS used the wrong key version ('' @ response_name response @ '')'') None)
          else if \<not> response_verifiedDataCrc32c response
          then Inl (KmsError ''KMS failed to verify plaintext CRC32C checksum'' None)
          else (case response_signatureCrc32c response of
                  None \<Rightarrow> Inl TypeError
                | Some reported \<Rightarrow>
                    if uint (crc (response_signature response)) \<noteq> reported
                    then Inl (KmsError ''Signature CRC32C checksum does not match one received from KMS'' None)
                    else Inr (response_signature response)))"
    if managed: "instanceof_GcpKmsRsaPssPrivateKey (objects w key)"
      and salt: "saltLength algorithm = 32 \<or> saltLength algorithm = 64"
  proof -
    obtain path h p where key: "objects w key = GcpKmsRsaPssPrivateKey path h p"
      using managed by (cases "objects w key") simp_all
    have reply: "asymmetricSign (kmsClient this)
         \<lparr>request_data = plaintext, request_dataCrc32c = crc plaintext, request_name = path\<rparr>
         opts (kms w) = (a, s)"
      using sign_reply key by simp
    show ?thesis
      unfolding onSign_managed [OF key salt]
        kmsSign_outcome [where crc = crc and plaintext = plaintext, OF key reply]
      using key by (simp split: sum.splits)
  qed
  have exporting: "onExportKey this decode spki key w =
     (case a1 of
        Inr response \<Rightarrow>
          (decoded_pem decode response,
           w\<lparr>kms := s1,
             events := events w @
               [GetPublicKeyCall (kmsKeyVersionPath (objects w key)) \<lparr>maxRetries = 3, timeout = 300\<rparr>]\<rparr>)
      | Inl e1 \<Rightarrow>
          (case isKeyPendingCreation e1 of
             Inl thrown \<Rightarrow>
               (Inl (KmsError ''Failed to retrieve public key'' (Some thrown)),
                w\<lparr>kms := s1,
                  events := events w @
                    [GetPublicKeyCall (kmsKeyVersionPath (objects w key)) \<lparr>maxRetries = 3, timeout = 300\<rparr>]\<rparr>)
           | Inr pending \<Rightarrow>
               if \<not> pending
               then (Inl (KmsError ''Failed to retrieve public key'' (Some e1)),
                     w\<lparr>kms := s1,
                       events := events w @
                         [GetPublicKeyCall (kmsKeyVersionPath (objects w key)) \<lparr>maxRetries = 3, timeout = 300\<rparr>]\<rparr>)
               else (case a2 of
                       Inl e2 \<Rightarrow> Inl (KmsError ''Failed to retrieve public key'' (Some e2))
                     | Inr response \<Rightarrow> decoded_pem decode response,
                     w\<lparr>kms := s2,
                       events := events w @
                         [GetPublicKeyCall (kmsKeyVersionPath (objects w key)) \<lparr>maxRetries = 3, timeout = 300\<rparr>,
                          Sleep 500,
                          GetPublicKeyCall (kmsKeyVersionPath (objects w key)) \<lparr>maxRetries = 3, timeout = 300\<rparr>]\<rparr>)))"
    if managed: "instanceof_GcpKmsRsaPssPrivateKey (objects w key)"
  proof -
    obtain path h p where key: "objects w key = GcpKmsRsaPssPrivateKey path h p"
      using managed by (cases "objects w key") simp_all
    have first': "getPublicKey (kmsClient this) path \<lparr>maxRetries = 3, timeout = 300\<rparr> (kms w) = (a1, s1)"
      using first key by simp
    have second': "getPublicKey (kmsClient this) path \<lparr>maxRetries = 3, timeout = 300\<rparr> s1 = (a2, s2)"
      using second key by simp
    have path: "kmsKeyVersionPath (objects w key) = path"
      using key by simp
    show ?thesis
      unfolding onExportKey_managed [OF key] path
      by (rule retrieveKMSPublicKey_outcome [OF first' second'])
  qed
  have sign_kind: "isKmsError e" if failed: "fst (onSign this crc opts algorithm key plaintext w) = Inl e" for e
  proof (cases "instanceof_GcpKmsRsaPssPrivateKey (objects w key)
                \<and> (saltLength algorithm = 32 \<or> saltLength algorithm = 64)")
    case True
    then have outcome: "fst (onSign this crc opts algorithm key plaintext w) =
     (case a of
        Inl err \<Rightarrow> Inl (KmsError ''KMS signature request failed'' (Some err))
      | Inr response \<Rightarrow>
          if response_name response \<noteq> kmsKeyVersionPath (objects w key)
          then Inl (KmsError (''KMS used the wrong key version ('' @ response_name response @ '')'') None)
          else if \<not> response_verifiedDataCrc32c response
          then Inl (KmsError ''KMS failed to verify plaintext CRC32C checksum'' None)
          else (case response_signatureCrc32c response of
                  None \<Rightarrow> Inl TypeError
                | Some reported \<Rightarrow>
                    if uint (crc (response_signature response)) \<noteq> reported
                    then Inl (KmsError ''Signature CRC32C checksum does not match one received from KMS'' None)
                    else Inr (response_signature response)))"
      using signing by blast
    show ?thesis
    proof (cases a)
      case (Inl err)
      then show ?thesis
        using failed outcome by auto
    next
      case (Inr response)
      then obtain reported where "response_signatureCrc32c response = Some reported"
        using sign_checksum by auto
      then show ?thesis
        using failed outcome Inr by (auto split: if_splits)
    qed
  next
    case False
    then show ?thesis
      using failed onSign_unmanaged_error_kind by blast
  qed
  have export_kind: "isKmsError e" if failed: "fst (onExportKey this decode format key w) = Inl e" for e
  proof (cases "format = spki \<and> instanceof_GcpKmsRsaPssPrivateKey (objects w key)")
    case True
    then have failed': "fst (onExportKey this decode spki key w) = Inl e"
      using failed by simp
    note outcome = exporting [OF conjunct2 [OF True]]
    show ?thesis
    proof (cases a1)
      case (Inr response)
      then obtain pemText where "response_pem response = Some pemText"
        using first_pem by auto
      then show ?thesis
        using failed' Inr unfolding outcome by simp
    next
      case (Inl e1)
      show ?thesis
      proof (cases "isKeyPendingCreation e1")
        case thrown: (Inl thrown)
        then show ?thesis
          using failed' Inl unfolding outcome by auto
      next
        case classified: (Inr pending)
        show ?thesis
        proof (cases "pending \<and> \<not> isl a2")
          case False
          then show ?thesis
            using failed' Inl classified unfolding outcome by (auto split: sum.splits if_splits)
        next
          case True
          then obtain response where answered: "a2 = Inr response"
            by (cases a2) simp_all
          then obtain pemText where "response_pem response = Some pemText"
            using second_pem Inl classified True by auto
          then show ?thesis
            using failed' Inl classified True answered unfolding outcome by simp
        qed
      qed
    qed
  next
    case False
    then show ?thesis
      using failed onExportKey_unmanaged_error_kind by blast
  qed
  have sign_cause: "fst (onSign this crc opts algorithm key plaintext w) =
          Inl (KmsError ''KMS signature request failed'' (Some err))"
    if "instanceof_GcpKmsRsaPssPrivateKey (objects w key)"
      and "saltLength algorithm = 32 \<or> saltLength algorithm = 64" and "a = Inl err" for err
    using that signing by simp
  have export_first: "fst (onExportKey this decode spki key w) =
          Inl (KmsError ''Failed to retrieve public key'' (Some e1))"
    if "instanceof_GcpKmsRsaPssPrivateKey (objects w key)"
      and "a1 = Inl e1" and "isKeyPendingCreation e1 = Inr False" for e1
    using that exporting by simp
  have export_second: "fst (onExportKey this decode spki key w) =
          Inl (KmsError ''Failed to retrieve public key'' (Some e2))"
    if "instanceof_GcpKmsRsaPssPrivateKey (objects w key)"
      and "a1 = Inl e1" and "isKeyPendingCreation e1 = Inr True" and "a2 = Inl e2" for e1 e2
    using that exporting by simp
  show ?thesis
  proof (intro conjI allI impI)
    fix e
    assume "fst (onSign this crc opts algorithm key plaintext w) = Inl e"
    then show "isKmsError e"
      by (rule sign_kind)
  next
    fix e
    assume "fst (onExportKey this decode format key w) = Inl e"
    then show "isKmsError e"
      by (rule export_kind)
  qed (use sign_cause export_first export_second in blast)+
qed

theorem failures_are_KmsError_witness:
  "fst (onSign (new_GcpKmsRsaPssProvider (mock_client (\<lambda>request. Inl denied_error) (\<lambda>n. Inl denied_error)))
          crc32c example_options \<lparr>saltLength = 32\<rparr> 0 [1, 2, 3] example_world)
     = Inl (KmsError ''KMS signature request failed'' (Some denied_error))
   \<and> fst (onExportKey (new_GcpKmsRsaPssProvider (mock_client (\<lambda>request. Inl denied_error) (\<lambda>n. Inl denied_error)))
          base64 spki 0 example_world)
     = Inl (KmsError ''Failed to retrieve public key'' (Some denied_error))
   \<and> fst (onExportKey
            (new_GcpKmsRsaPssProvider
               (mock_client honest_reply (\<lambda>n. if n = 0 then Inl pending_error else Inl denied_error)))
            base64 spki 0 example_world)
     = Inl (KmsError ''Failed to retrieve public key'' (Some denied_error))
   \<and> isKmsError (KmsError ''KMS signature request failed'' (Some denied_error))"
proof -
  have pending: "isKeyPendingCreation pending_error = Inr True"
    by (simp add: isKeyPendingCreation_def pending_error_def)
  have denied: "isKeyPendingCreation denied_error = Inr False"
    by (simp add: isKeyPendingCreation_def denied_error_def)
  have managed: "instanceof_GcpKmsRsaPssPrivateKey (objects example_world 0)"
    by (simp add: example_world_def)
  note rejected =
    failures_are_KmsError [where
      this = "new_GcpKmsRsaPssProvider (mock_client (\<lambda>request. Inl denied_error) (\<lambda>n. Inl denied_error))"
      and plaintext = "[1, 2, 3]" and crc = crc32c and w = example_world and key = 0
      and opts = example_options and a = "Inl denied_error" and s = 1
      and ?a1.0 = "Inl denied_error" and ?s1.0 = 1 and ?a2.0 = "Inl denied_error" and ?s2.0 = 2
      and algorithm = "\<lparr>saltLength = 32\<rparr>" and decode = base64 and format = spki]
  have all_rejected:
    "(\<forall>err.
        instanceof_GcpKmsRsaPssPrivateKey (objects example_world 0)
        \<and> (saltLength \<lparr>saltLength = 32\<rparr> = 32 \<or> saltLength \<lparr>saltLength = 32\<rparr> = 64)
        \<and> Inl denied_error = Inl err \<longrightarrow>
        fst (onSign (new_GcpKmsRsaPssProvider (mock_client (\<lambda>request. Inl denied_error) (\<lambda>n. Inl denied_error)))
               crc32c example_options \<lparr>saltLength = 32\<rparr> 0 [1, 2, 3] example_world) =
          Inl (KmsError ''KMS signature request failed'' (Some err)))
     \<and> (\<forall>e1.
        instanceof_GcpKmsRsaPssPrivateKey (objects example_world 0)
        \<and> Inl denied_error = Inl e1 \<and> isKeyPendingCreation e1 = Inr False \<longrightarrow>
        fst (onExportKey (new_GcpKmsRsaPssProvider (mock_client (\<lambda>request. Inl denied_error) (\<lambda>n. Inl denied_error)))
               base64 spki 0 example_world) =
          Inl (KmsError ''Failed to retrieve public key'' (Some e1)))"
    using rejected [THEN conjunct2, THEN conjunct2]
    by (simp add: example_world_def new_GcpKmsRsaPssProvider_def mock_client_def)
  note retried =
    failures_are_KmsError [where
      this = "new_GcpKmsRsaPssProvider
         (mock_client honest_reply (\<lambda>n. if n = 0 then Inl pending_error else Inl denied_error))"
      and plaintext = "[1, 2, 3]" and crc = crc32c and w = example_world and key = 0
      and opts = example_options
      and a = "honest_reply
         \<lparr>request_data = [1, 2, 3], request_dataCrc32c = crc32c [1, 2, 3], request_name = example_path\<rparr>"
      and s = 1
      and ?a1.0 = "Inl pending_error" and ?s1.0 = 1 and ?a2.0 = "Inl denied_error" and ?s2.0 = 2
      and algorithm = "\<lparr>saltLength = 32\<rparr>" and decode = base64 and format = spki]
  have second_rejected:
    "\<forall>e1 e2.
        instanceof_GcpKmsRsaPssPrivateKey (objects example_world 0)
        \<and> Inl pending_error = Inl e1 \<and> isKeyPendingCreation e1 = Inr True \<and> Inl denied_error = Inl e2 \<longrightarrow>
        fst (onExportKey
               (new_GcpKmsRsaPssProvider
                  (mock_client honest_reply (\<lambda>n. if n = 0 then Inl pending_error else Inl denied_error)))
               base64 spki 0 example_world) =
          Inl (KmsError ''Failed to retrieve public key'' (Some e2))"
    using retried [THEN conjunct2, THEN conjunct2, THEN conjunct2, THEN conjunct2]
    by (simp add: example_world_def new_GcpKmsRsaPssProvider_def mock_client_def honest_reply_def)
  show ?thesis
    using all_rejected [THEN conjunct1, rule_format, of denied_error]
      all_rejected [THEN conjunct2, rule_format, of denied_error]
      second_rejected [rule_format, of pending_error denied_error]
      managed pending denied
    by simp
qed

section \<open>The key handle\<close>

lemma kmsSign_objects: "objects (snd (kmsSign this crc opts plaintext key w)) = objects w"
  by (auto simp: kmsSign_def wrapGCPCallError_def call_asymmetricSign_def Let_def
      split: sum.splits prod.splits option.splits)

lemma onSign_objects: "objects (snd (onSign this crc opts algorithm key plaintext w)) = objects w"
  by (simp add: onSign_def kmsSign_objects)

lemma retrieveKMSPublicKey_objects:
  "objects (snd (retrieveKMSPublicKey decode path client w)) = objects w"
  by (cases "getPublicKey client path \<lparr>maxRetries = 3, timeout = 300\<rparr> (kms w)";
      cases "getPublicKey client path \<lparr>maxRetries = 3, timeout = 300\<rparr>
               (snd (getPublicKey client path \<lparr>maxRetries = 3, timeout = 300\<rparr> (kms w)))")
     (simp add: retrieveKMSPublicKey_outcome split: sum.splits)

lemma onExportKey_objects: "objects (snd (onExportKey this decode format key w)) = objects w"
  by (simp add: onExportKey_def retrieveKMSPublicKey_objects)

lemma onSign_touches:
  assumes key: "objects w key = GcpKmsRsaPssPrivateKey path h p"
  shows "\<exists>new. events (snd (onSign this crc opts algorithm key plaintext w)) = events w @ new
           \<and> set (touched_keys new) \<subseteq> {path}"
proof (cases "saltLength algorithm = 32 \<or> saltLength algorithm = 64")
  case True
  obtain reply s where reply: "asymmetricSign (kmsClient this)
      \<lparr>request_data = plaintext, request_dataCrc32c = crc plaintext, request_name = path\<rparr>
      opts (kms w) = (reply, s)"
    by (cases "asymmetricSign (kmsClient this)
      \<lparr>request_data = plaintext, request_dataCrc32c = crc plaintext, request_name = path\<rparr>
      opts (kms w)")
  show ?thesis
    unfolding onSign_managed [OF key True]
      kmsSign_outcome [where crc = crc and plaintext = plaintext, OF key reply]
    by (simp add: touched_keys_def)
next
  case False
  then have "onSign this crc opts algorithm key plaintext w =
     (Inl (KmsError (''Unsupported salt length of '' @ string_of_nat (saltLength algorithm) @ '' octets'') None), w)"
    using key by (simp add: onSign_def supported_salt)
  then show ?thesis
    by (simp add: touched_keys_def)
qed

lemma retrieveKMSPublicKey_touches:
  "\<exists>new. events (snd (retrieveKMSPublicKey decode path client w)) = events w @ new
           \<and> set (touched_keys new) \<subseteq> {path}"
proof -
  obtain a1 s1 where first: "getPublicKey client path \<lparr>maxRetries = 3, timeout = 300\<rparr> (kms w) = (a1, s1)"
    by (cases "getPublicKey client path \<lparr>maxRetries = 3, timeout = 300\<rparr> (kms w)")
  obtain a2 s2 where second: "getPublicKey client path \<lparr>maxRetries = 3, timeout = 300\<rparr> s1 = (a2, s2)"
    by (cases "getPublicKey client path \<lparr>maxRetries = 3, timeout = 300\<rparr> s1")
  show ?thesis
    unfolding retrieveKMSPublicKey_outcome [OF first second]
    by (simp add: touched_keys_def split: sum.splits)
qed

lemma onExportKey_touches:
  assumes key: "objects w key = GcpKmsRsaPssPrivateKey path h p"
  shows "\<exists>new. events (snd (onExportKey this decode format key w)) = events w @ new
           \<and> set (touched_keys new) \<subseteq> {path}"
proof (cases "format = spki")
  case True
  show ?thesis
    unfolding True onExportKey_managed [OF key] by (rule retrieveKMSPublicKey_touches)
next
  case False
  then show ?thesis
    by (simp add: onExportKey_def touched_keys_def)
qed

text \<open>The same world with other values in the two further fields of the handle.\<close>

lemma onSign_path_only:
  assumes key: "objects w key = GcpKmsRsaPssPrivateKey path h p"
  shows "onSign this crc opts algorithm key plaintext
           (w\<lparr>objects := (objects w)(key := GcpKmsRsaPssPrivateKey path h' p')\<rparr>) =
         (fst (onSign this crc opts algorithm key plaintext w),
          (snd (onSign this crc opts algorithm key plaintext w))
            \<lparr>objects := (objects w)(key := GcpKmsRsaPssPrivateKey path h' p')\<rparr>)"
proof (cases "saltLength algorithm = 32 \<or> saltLength algorithm = 64")
  case True
  obtain reply s where reply: "asymmetricSign (kmsClient this)
      \<lparr>request_data = plaintext, request_dataCrc32c = crc plaintext, request_name = path\<rparr>
      opts (kms w) = (reply, s)"
    by (cases "asymmetricSign (kmsClient this)
      \<lparr>request_data = plaintext, request_dataCrc32c = crc plaintext, request_name = path\<rparr>
      opts (kms w)")
  let ?w' = "w\<lparr>objects := (objects w)(key := GcpKmsRsaPssPrivateKey path h' p')\<rparr>"
  have key': "objects ?w' key = GcpKmsRsaPssPrivateKey path h' p'"
    by simp
  have reply': "asymmetricSign (kmsClient this)
      \<lparr>request_data = plaintext, request_dataCrc32c = crc plaintext, request_name = path\<rparr>
      opts (kms ?w') = (reply, s)"
    using reply by simp
  show ?thesis
    unfolding onSign_managed [OF key True] onSign_managed [OF key' True]
      kmsSign_outcome [where crc = crc and plaintext = plaintext, OF key reply]
      kmsSign_outcome [where crc = crc and plaintext = plaintext, OF key' reply']
    by simp
next
  case False
  then show ?thesis
    using key by (simp add: onSign_def supported_salt)
qed

lemma retrieveKMSPublicKey_store:
  "retrieveKMSPublicKey decode path client (w\<lparr>objects := store\<rparr>) =
     (fst (retrieveKMSPublicKey decode path client w),
      (snd (retrieveKMSPublicKey decode path client w))\<lparr>objects := store\<rparr>)"
proof -
  obtain a1 s1 where first: "getPublicKey client path \<lparr>maxRetries = 3, timeout = 300\<rparr> (kms w) = (a1, s1)"
    by (cases "getPublicKey client path \<lparr>maxRetries = 3, timeout = 300\<rparr> (kms w)")
  obtain a2 s2 where second: "getPublicKey client path \<lparr>maxRetries = 3, timeout = 300\<rparr> s1 = (a2, s2)"
    by (cases "getPublicKey client path \<lparr>maxRetries = 3, timeout = 300\<rparr> s1")
  have first': "getPublicKey client path \<lparr>maxRetries = 3, timeout = 300\<rparr> (kms (w\<lparr>objects := store\<rparr>)) = (a1, s1)"
    using first by simp
  show ?thesis
    unfolding retrieveKMSPublicKey_outcome [OF first second]
      retrieveKMSPublicKey_outcome [OF first' second]
    by (simp split: sum.splits)
qed

lemma onExportKey_path_only:
  assumes key: "objects w key = GcpKmsRsaPssPrivateKey path h p"
  shows "onExportKey this decode format key
           (w\<lparr>objects := (objects w)(key := GcpKmsRsaPssPrivateKey path h' p')\<rparr>) =
         (fst (onExportKey this decode format key w),
          (snd (onExportKey this decode format key w))
            \<lparr>objects := (objects w)(key := GcpKmsRsaPssPrivateKey path h' p')\<rparr>)"
  using key by (simp add: onExportKey_def retrieveKMSPublicKey_store)

text \<open>
  C9. Sign and export leave every object of the store as it was, in particular the
  handle with its key path, hash algorithm and provider reference. Every remote call they
  make names the key path of the handle, as it is stored. And the key path alone decides
  what they do: with other values in the hash algorithm and the provider reference of the
  handle, the result, the calls and the state of the remote service are the same.
\<close>

theorem key_handle_untouched:
  assumes "objects w key = GcpKmsRsaPssPrivateKey path h p"
  shows "objects (snd (onSign this crc opts algorithm key plaintext w)) = objects w
       \<and> objects (snd (onExportKey this decode format key w)) = objects w
       \<and> (\<exists>new. events (snd (onSign this crc opts algorithm key plaintext w)) = events w @ new
             \<and> set (touched_keys new) \<subseteq> {path})
       \<and> (\<exists>new. events (snd (onExportKey this decode format key w)) = events w @ new
             \<and> set (touched_keys new) \<subseteq> {path})
       \<and> (\<forall>h' p'.
            onSign this crc opts algorithm key plaintext
              (w\<lparr>objects := (objects w)(key := GcpKmsRsaPssPrivateKey path h' p')\<rparr>) =
            (fst (onSign this crc opts algorithm key plaintext w),
             (snd (onSign this crc opts algorithm key plaintext w))
               \<lparr>objects := (objects w)(key := GcpKmsRsaPssPrivateKey path h' p')\<rparr>))
       \<and> (\<forall>h' p'.
            onExportKey this decode format key
              (w\<lparr>objects := (objects w)(key := GcpKmsRsaPssPrivateKey path h' p')\<rparr>) =
            (fst (onExportKey this decode format key w),
             (snd (onExportKey this decode format key w))
               \<lparr>objects := (objects w)(key := GcpKmsRsaPssPrivateKey path h' p')\<rparr>))"
  using onSign_objects onExportKey_objects onSign_touches [OF assms] onExportKey_touches [OF assms]
    onSign_path_only [OF assms] onExportKey_path_only [OF assms]
  by (intro conjI allI)

theorem key_handle_untouched_witness:
  "objects (snd (onSign (new_GcpKmsRsaPssProvider (mock_client honest_reply (\<lambda>n. Inl pending_error)))
                   crc32c example_options \<lparr>saltLength = 32\<rparr> 0 [1, 2, 3] example_world)) 0
     = GcpKmsRsaPssPrivateKey example_path ''SHA-256'' 1
   \<and> objects (snd (onExportKey (new_GcpKmsRsaPssProvider (mock_client honest_reply (\<lambda>n. Inl pending_error)))
                   base64 spki 0 example_world)) 0
     = GcpKmsRsaPssPrivateKey example_path ''SHA-256'' 1
   \<and> touched_keys (events (snd (onSign (new_GcpKmsRsaPssProvider (mock_client honest_reply (\<lambda>n. Inl pending_error)))
                   crc32c example_options \<lparr>saltLength = 32\<rparr> 0 [1, 2, 3] example_world)))
     = [example_path]
   \<and> touched_keys (events (snd (onExportKey (new_GcpKmsRsaPssProvider (mock_client honest_reply (\<lambda>n. Inl pending_error)))
                   base64 spki 0 example_world)))
     = [example_path, example_path]"
proof -
  have key: "objects example_world 0 = GcpKmsRsaPssPrivateKey example_path ''SHA-256'' 1"
    by (simp add: example_world_def)
  have pending: "isKeyPendingCreation pending_error = Inr True"
    by (simp add: isKeyPendingCreation_def pending_error_def)
  have signed: "touched_keys (events (snd (onSign (new_GcpKmsRsaPssProvider (mock_client honest_reply (\<lambda>n. Inl pending_error)))
                   crc32c example_options \<lparr>saltLength = 32\<rparr> 0 [1, 2, 3] example_world)))
     = [example_path]"
    unfolding onSign_managed [OF key, of "\<lparr>saltLength = 32\<rparr>", simplified]
    by (simp add: kmsSign_def wrapGCPCallError_def call_asymmetricSign_def Let_def
        new_GcpKmsRsaPssProvider_def mock_client_def honest_reply_def example_world_def touched_keys_def)
  have exported: "touched_keys (events (snd (onExportKey (new_GcpKmsRsaPssProvider (mock_client honest_reply (\<lambda>n. Inl pending_error)))
                   base64 spki 0 example_world)))
     = [example_path, example_path]"
    unfolding onExportKey_managed [OF key]
    by (simp add: retrieveKMSPublicKey_def wrapGCPCallError_def retrieveWhenReady_def
        do_retrieveKMSPublicKey_def call_getPublicKey_def sleep_def pending
        new_GcpKmsRsaPssProvider_def mock_client_def example_world_def touched_keys_def)
  show ?thesis
    using
      key_handle_untouched [OF key,
        of "new_GcpKmsRsaPssProvider (mock_client honest_reply (\<lambda>n. Inl pending_error))"
        crc32c example_options "\<lparr>saltLength = 32\<rparr>" "[1, 2, 3]" base64 spki]
      key signed exported
    by simp
qed

section \<open>PEM decoding\<close>

lemma match_star_label:
  "\<forall>c \<in> set label. in_class c \<Longrightarrow> match_star (label @ ''-----'' @ rest) = Some rest"
  by (induction label) (simp_all add: match_dashes_def in_class_def is_word_char_def)

lemma replace_pattern_framing:
  assumes "\<forall>c \<in> set label. in_class c"
  shows "replace_pattern (''-----'' @ label @ ''-----'' @ rest) = replace_pattern rest"
proof -
  have "match_pattern (''-----'' @ label @ ''-----'' @ rest) = Some rest"
    using match_star_label [OF assms, of rest]
    by (simp add: match_pattern_def match_framing_def match_dashes_def)
  then show ?thesis
    by simp
qed

lemma replace_pattern_line_feed: "replace_pattern (line_feed # rest) = replace_pattern rest"
  by (simp add: match_pattern_def match_framing_def match_dashes_def line_feed_def)

lemma replace_pattern_line_feeds: "replace_pattern (replicate k line_feed) = []"
  by (induction k) (simp_all add: replace_pattern_line_feed del: replace_pattern.simps(2))

lemma replace_pattern_plain:
  "\<forall>c \<in> set line. c \<noteq> CHR ''-'' \<and> c \<noteq> line_feed \<Longrightarrow>
     replace_pattern (line @ rest) = line @ replace_pattern rest"
  by (induction line) (simp_all add: match_pattern_def match_framing_def match_dashes_def)

lemma replace_pattern_body:
  "\<forall>line \<in> set body. \<forall>c \<in> set line. c \<noteq> CHR ''-'' \<and> c \<noteq> line_feed \<Longrightarrow>
     replace_pattern (concat (map (\<lambda>line. line @ [line_feed]) body) @ rest) = concat body @ replace_pattern rest"
  by (induction body)
    (simp_all add: replace_pattern_plain replace_pattern_line_feed del: replace_pattern.simps(2))

lemma pemToDer_framed:
  assumes "\<forall>c \<in> set header. in_class c" and "\<forall>c \<in> set footer. in_class c"
    and "\<forall>line \<in> set body. \<forall>c \<in> set line. c \<noteq> CHR ''-'' \<and> c \<noteq> line_feed"
  shows "pemToDer decode
           (''-----'' @ header @ ''-----'' @ [line_feed]
            @ concat (map (\<lambda>line. line @ [line_feed]) body)
            @ ''-----'' @ footer @ ''-----'' @ replicate k line_feed)
         = decode (concat body)"
proof -
  have "replace_pattern
           (''-----'' @ header @ ''-----'' @ [line_feed]
            @ concat (map (\<lambda>line. line @ [line_feed]) body)
            @ ''-----'' @ footer @ ''-----'' @ replicate k line_feed)
        = replace_pattern
            (concat (map (\<lambda>line. line @ [line_feed]) body)
             @ ''-----'' @ footer @ ''-----'' @ replicate k line_feed)"
    using replace_pattern_framing [OF assms(1)] replace_pattern_line_feed by simp
  also have "\<dots> = concat body @ replace_pattern (''-----'' @ footer @ ''-----'' @ replicate k line_feed)"
    by (rule replace_pattern_body [OF assms(3)])
  also have "\<dots> = concat body"
    using replace_pattern_framing [OF assms(2), of "replicate k line_feed"]
    by (simp add: replace_pattern_line_feeds)
  finally show ?thesis
    by (simp add: pemToDer_def)
qed

text \<open>
  C8. \<^verbatim>\<open>pemToDer\<close> removes the framing lines and the line feeds and decodes the rest as Base64:
  for a header and a footer label of word characters and spaces between five dashes, and
  body lines without dash or line feed, each followed by a line feed, the result is the
  decoding of the body lines joined, whatever number of line feeds follows the footer. For
  the input \<^verbatim>\<open>-----BEGIN PUBLIC KEY-----\nAAA=\n-----END PUBLIC KEY-----\<close> the result is the
  decoding of \<^verbatim>\<open>AAA=\<close>.
\<close>

theorem pemToDer_strips_framing:
  "((\<forall>c \<in> set header. in_class c) \<and> (\<forall>c \<in> set footer. in_class c)
      \<and> (\<forall>line \<in> set body. \<forall>c \<in> set line. c \<noteq> CHR ''-'' \<and> c \<noteq> line_feed) \<longrightarrow>
      pemToDer decode
        (''-----'' @ header @ ''-----'' @ [line_feed]
         @ concat (map (\<lambda>line. line @ [line_feed]) body)
         @ ''-----'' @ footer @ ''-----'' @ replicate k line_feed)
      = decode (concat body))
   \<and> pemToDer decode
        (''-----BEGIN PUBLIC KEY-----'' @ [line_feed] @ ''AAA='' @ [line_feed] @ ''-----END PUBLIC KEY-----'')
      = decode ''AAA=''"
proof -
  have "pemToDer decode
        (''-----'' @ ''BEGIN PUBLIC KEY'' @ ''-----'' @ [line_feed]
         @ concat (map (\<lambda>line. line @ [line_feed]) [''AAA=''])
         @ ''-----'' @ ''END PUBLIC KEY'' @ ''-----'' @ replicate 0 line_feed)
      = decode (concat [''AAA=''])"
    by (rule pemToDer_framed) (simp_all add: in_class_def is_word_char_def line_feed_def)
  then show ?thesis
    using pemToDer_framed [of header footer body decode k] by simp
qed

theorem pemToDer_strips_framing_witness:
  "pemToDer base64
     (''-----BEGIN RSA PUBLIC KEY-----'' @ [line_feed] @ ''AQID'' @ [line_feed] @ ''BA=='' @ [line_feed]
      @ ''-----END RSA PUBLIC KEY-----'' @ [line_feed])
   = [1, 2, 3, 4]"
proof -
  have decoded: "base64 ''AQIDBA=='' = [1, 2, 3, 4]"
    by (simp add: base64_def sextet_def)
  show ?thesis
    using pemToDer_strips_framing [of "''BEGIN RSA PUBLIC KEY''" "''END RSA PUBLIC KEY''"
        "[''AQID'', ''BA=='']" base64 1] decoded
    by (simp add: in_class_def is_word_char_def line_feed_def)
qed

end
